theory Spec2Isabelle
  imports Main
begin

section \<open>Location-gated login: the registry and its two edge functions\<close>

text \<open>
  The development embeds the two serverless functions \<open>secure-login\<close> and
  \<open>resolve-access-request\<close> together with the three tables they touch
  (\<open>profiles\<close>, \<open>allowed_ips\<close>, \<open>access_requests\<close>), as declared in the migration
  \<open>20250621021110_cool_butterfly.sql\<close>.

  Each handler is a function from the environment of one invocation and the database
  to a response and the database afterwards. The identity store and the storage client
  are external: what they answer is a parameter of the invocation (\<open>env\<close>).
\<close>

subsection \<open>Values\<close>

type_synonym uuid = string
type_synonym timestamp = string

text \<open>The JSON values the handlers put into a response body.\<close>

datatype json = JNull | JBool bool | JStr string | JObj "(string \<times> json) list"

text \<open>\<open>new Response(JSON.stringify(obj), { status, headers })\<close>; the status is 200 when
  the source gives none. The CORS headers are the same on every response and are left out.\<close>

record response =
  status_code :: nat
  body :: "(string \<times> json) list"

definition json_response :: "nat \<Rightarrow> (string \<times> json) list \<Rightarrow> response" where
  "json_response code kvs = \<lparr>status_code = code, body = kvs\<rparr>"

definition error_response :: "nat \<Rightarrow> string \<Rightarrow> response" where
  "error_response code msg = json_response code [(''error'', JStr msg)]"

definition body_field :: "response \<Rightarrow> string \<Rightarrow> json option" where
  "body_field r k = map_of (body r) k"

definition keys :: "response \<Rightarrow> string list" where
  "keys r = map fst (body r)"

subsection \<open>Tables\<close>

text \<open>
  \<open>profiles (id uuid PRIMARY KEY, full_name text NOT NULL,
     role text NOT NULL CHECK (role IN ('ADMIN', 'CS')), is_active boolean DEFAULT true, ...)\<close>.
  The column \<open>id\<close> of each table carries a prefix here, since \<open>id\<close> is a constant of HOL.
  The role stays a text, as the handlers compare it with string literals and have a
  branch for any other value.
\<close>

record profiles_row =
  p_id :: uuid
  full_name :: string
  role :: string
  is_active :: bool

text \<open>
  \<open>allowed_ips (id uuid PRIMARY KEY DEFAULT uuid_generate_v4(), ip_address text UNIQUE NOT NULL,
     description text, created_by uuid REFERENCES profiles(id), created_at timestamptz DEFAULT now())\<close>
\<close>

record allowed_ips_row =
  ip_id :: uuid
  ip_address :: string
  description :: "string option"
  created_by :: "uuid option"
  created_at :: timestamp

text \<open>
  \<open>access_requests (id uuid PRIMARY KEY DEFAULT uuid_generate_v4(),
     profile_id uuid NOT NULL REFERENCES profiles(id), ip_address text NOT NULL,
     status text NOT NULL DEFAULT 'PENDING' CHECK (status IN ('PENDING', 'APPROVED', 'DENIED')),
     requested_at timestamptz DEFAULT now(), resolved_at timestamptz,
     resolved_by uuid REFERENCES profiles(id))\<close>.
  The CHECK constraint closes the status column to three values.
\<close>

datatype request_status = PENDING | APPROVED | DENIED

record access_requests_row =
  ar_id :: uuid
  profile_id :: uuid
  ar_ip_address :: string
  status :: request_status
  requested_at :: timestamp
  resolved_at :: "timestamp option"
  resolved_by :: "uuid option"

record db =
  profiles :: "profiles_row list"
  allowed_ips :: "allowed_ips_row list"
  access_requests :: "access_requests_row list"

fun status_text :: "request_status \<Rightarrow> string" where
  "status_text PENDING = ''PENDING''"
| "status_text APPROVED = ''APPROVED''"
| "status_text DENIED = ''DENIED''"

subsection \<open>The environment of one invocation\<close>

text \<open>The storage calls of the two functions, in the order of the source.\<close>

datatype storage_call =
    ProfileSelect
  | AllowedIpSelect
  | PendingSelect
  | RequestInsert
  | StatusSelect
  | RequestSelect
  | RequestUpdate
  | AllowedIpInsert

text \<open>What \<open>supabaseClient.auth.signInWithPassword\<close> returns on success: \<open>authData.user\<close>
  (of which the handler reads \<open>id\<close>) and \<open>authData.session\<close>, both opaque.\<close>

record auth_data =
  user_id :: uuid
  user :: json
  session :: json

text \<open>
  \<^item> \<open>signInWithPassword\<close>: the identity store; \<open>None\<close> is \<open>authError\<close>.
  \<^item> \<open>getUser\<close>: \<open>supabaseClient.auth.getUser(token)\<close>; \<open>None\<close> is \<open>authError || !user\<close>.
  \<^item> \<open>unavailable\<close>: the storage calls that come back with an error for a reason outside
    the data (the client reports it as \<open>{ data: null, error }\<close>); such a call writes nothing.
  \<^item> \<open>uuid_generate_v4\<close>: the id the storage draws for the row this invocation inserts.
  \<^item> \<open>db_now\<close>: \<open>now()\<close> of the storage; \<open>js_now\<close>: \<open>new Date().toISOString()\<close>.
\<close>

record env =
  signInWithPassword :: "string \<Rightarrow> string \<Rightarrow> auth_data option"
  getUser :: "string \<Rightarrow> uuid option"
  unavailable :: "storage_call \<Rightarrow> bool"
  uuid_generate_v4 :: uuid
  db_now :: timestamp
  js_now :: timestamp

subsection \<open>Queries\<close>

text \<open>\<open>.single()\<close> of the storage client: the row when the query matches exactly one,
  otherwise an error and no data.\<close>

fun single :: "'a list \<Rightarrow> 'a option" where
  "single [x] = Some x"
| "single _ = None"

text \<open>\<open>.from('profiles').select('role, full_name').eq('id', uid).single()\<close>;
  the result holds the two selected columns only.\<close>

definition select_profile :: "env \<Rightarrow> db \<Rightarrow> uuid \<Rightarrow> (string \<times> string) option" where
  "select_profile e d uid =
     (if unavailable e ProfileSelect then None
      else map_option (\<lambda>p. (role p, full_name p))
             (single (filter (\<lambda>p. p_id p = uid) (profiles d))))"

text \<open>\<open>.from('allowed_ips').select('id').eq('ip_address', ip_address).single()\<close>\<close>

definition select_allowed_ip :: "env \<Rightarrow> db \<Rightarrow> string \<Rightarrow> uuid option" where
  "select_allowed_ip e d ip =
     (if unavailable e AllowedIpSelect then None
      else map_option ip_id (single (filter (\<lambda>a. ip_address a = ip) (allowed_ips d))))"

text \<open>\<open>.from('access_requests').select('id, status').eq('profile_id', uid)
   .eq('ip_address', ip_address).eq('status', 'PENDING').single()\<close>\<close>

definition is_pending_for :: "uuid \<Rightarrow> string \<Rightarrow> access_requests_row \<Rightarrow> bool" where
  "is_pending_for uid ip r \<longleftrightarrow> profile_id r = uid \<and> ar_ip_address r = ip \<and> status r = PENDING"

definition select_pending :: "env \<Rightarrow> db \<Rightarrow> uuid \<Rightarrow> string \<Rightarrow> uuid option" where
  "select_pending e d uid ip =
     (if unavailable e PendingSelect then None
      else map_option ar_id (single (filter (is_pending_for uid ip) (access_requests d))))"

text \<open>\<open>.from('access_requests').insert({ profile_id, ip_address, status: 'PENDING' })
   .select('id').single()\<close>. The storage draws the id and stamps \<open>requested_at\<close>; the primary
  key rejects an id that is taken. The table has no other uniqueness constraint. The
  foreign key of \<open>profile_id\<close> is met where the handler inserts: it has read the profile
  of this id just before.\<close>

definition insert_access_request :: "env \<Rightarrow> db \<Rightarrow> uuid \<Rightarrow> string \<Rightarrow> (uuid \<times> db) option" where
  "insert_access_request e d uid ip =
     (if unavailable e RequestInsert \<or> uuid_generate_v4 e \<in> set (map ar_id (access_requests d))
      then None
      else Some (uuid_generate_v4 e,
             d\<lparr>access_requests := access_requests d @
                 [\<lparr>ar_id = uuid_generate_v4 e, profile_id = uid, ar_ip_address = ip,
                   status = PENDING, requested_at = db_now e,
                   resolved_at = None, resolved_by = None\<rparr>]\<rparr>))"

subsection \<open>secure-login: POST\<close>

text \<open>The two bodies of a 200 response of the POST branch.\<close>

definition granted_response :: "auth_data \<Rightarrow> string \<times> string \<Rightarrow> response" where
  "granted_response authData profile =
     json_response 200
       [(''success'', JBool True),
        (''user'', user authData),
        (''profile'', JObj [(''role'', JStr (fst profile)), (''full_name'', JStr (snd profile))]),
        (''session'', session authData)]"

definition pending_response :: "uuid \<Rightarrow> response" where
  "pending_response requestId =
     json_response 200
       [(''success'', JBool False),
        (''status'', JStr ''PENDING_APPROVAL''),
        (''message'', JStr ''Access request pending admin approval''),
        (''request_id'', JStr requestId)]"

text \<open>The POST branch of \<open>secure-login\<close>, from the sign-in on; \<open>ip\<close> is the address
  the handler has read from the headers.\<close>

definition attempt_login :: "env \<Rightarrow> db \<Rightarrow> string \<Rightarrow> string \<Rightarrow> string \<Rightarrow> response \<times> db" where
  "attempt_login e d email password ip =
     (case signInWithPassword e email password of
        None \<Rightarrow> (error_response 401 ''Invalid credentials'', d)
      | Some authData \<Rightarrow>
          (case select_profile e d (user_id authData) of
             None \<Rightarrow> (error_response 404 ''Profile not found'', d)
           | Some profile \<Rightarrow>
               if fst profile = ''ADMIN'' then (granted_response authData profile, d)
               else if fst profile = ''CS'' then
                 (case select_allowed_ip e d ip of
                    Some allowedIp \<Rightarrow> (granted_response authData profile, d)
                  | None \<Rightarrow>
                      (case select_pending e d (user_id authData) ip of
                         Some existingRequest \<Rightarrow> (pending_response existingRequest, d)
                       | None \<Rightarrow>
                           (case insert_access_request e d (user_id authData) ip of
                              None \<Rightarrow>
                                (error_response 500 ''Failed to create access request'', d)
                            | Some (newRequest, d') \<Rightarrow> (pending_response newRequest, d'))))
               else (error_response 403 ''Invalid user role'', d)))"

text \<open>
  The same branch cut at its one write. Every storage call is a request of its own
  (\<open>await\<close>), so another invocation can run between the select of a pending request
  and the insert. \<open>login_reads\<close> is the handler up to and including that select;
  \<open>login_insert\<close> is the insert and the response after it.
\<close>

datatype login_phase = Responded response | ToInsert uuid string

definition login_reads :: "env \<Rightarrow> db \<Rightarrow> string \<Rightarrow> string \<Rightarrow> string \<Rightarrow> login_phase" where
  "login_reads e d email password ip =
     (case signInWithPassword e email password of
        None \<Rightarrow> Responded (error_response 401 ''Invalid credentials'')
      | Some authData \<Rightarrow>
          (case select_profile e d (user_id authData) of
             None \<Rightarrow> Responded (error_response 404 ''Profile not found'')
           | Some profile \<Rightarrow>
               if fst profile = ''ADMIN'' then Responded (granted_response authData profile)
               else if fst profile = ''CS'' then
                 (case select_allowed_ip e d ip of
                    Some allowedIp \<Rightarrow> Responded (granted_response authData profile)
                  | None \<Rightarrow>
                      (case select_pending e d (user_id authData) ip of
                         Some existingRequest \<Rightarrow> Responded (pending_response existingRequest)
                       | None \<Rightarrow> ToInsert (user_id authData) ip))
               else Responded (error_response 403 ''Invalid user role'')))"

definition login_insert :: "env \<Rightarrow> db \<Rightarrow> uuid \<Rightarrow> string \<Rightarrow> response \<times> db" where
  "login_insert e d uid ip =
     (case insert_access_request e d uid ip of
        None \<Rightarrow> (error_response 500 ''Failed to create access request'', d)
      | Some (newRequest, d') \<Rightarrow> (pending_response newRequest, d'))"

text \<open>The number of PENDING rows of a (profile, address) pair.\<close>

definition pending_count :: "db \<Rightarrow> uuid \<Rightarrow> string \<Rightarrow> nat" where
  "pending_count d uid ip = length (filter (is_pending_for uid ip) (access_requests d))"

subsection \<open>secure-login: GET /status/\<close>

text \<open>\<open>.from('access_requests').select('status, resolved_at').eq('id', requestId).single()\<close>\<close>

definition select_status :: "env \<Rightarrow> db \<Rightarrow> string \<Rightarrow> (request_status \<times> timestamp option) option" where
  "select_status e d requestId =
     (if unavailable e StatusSelect then None
      else map_option (\<lambda>r. (status r, resolved_at r))
             (single (filter (\<lambda>r. ar_id r = requestId) (access_requests d))))"

definition status_response :: "request_status \<times> timestamp option \<Rightarrow> response" where
  "status_response accessRequest =
     json_response 200
       [(''status'', JStr (status_text (fst accessRequest))),
        (''resolved_at'', (case snd accessRequest of None \<Rightarrow> JNull | Some t \<Rightarrow> JStr t))]"

definition get_request_status :: "env \<Rightarrow> db \<Rightarrow> string \<Rightarrow> response \<times> db" where
  "get_request_status e d requestId =
     (case select_status e d requestId of
        None \<Rightarrow> (error_response 404 ''Request not found'', d)
      | Some accessRequest \<Rightarrow> (status_response accessRequest, d))"

subsection \<open>resolve-access-request\<close>

text \<open>\<open>authHeader.replace('Bearer ', '')\<close>: the first occurrence of the pattern is removed.\<close>

fun remove_first :: "string \<Rightarrow> string \<Rightarrow> string" where
  "remove_first pat [] = []"
| "remove_first pat (c # cs) =
     (if take (length pat) (c # cs) = pat then drop (length pat) (c # cs)
      else c # remove_first pat cs)"

text \<open>\<open>action.toLowerCase()\<close> on the ASCII letters.\<close>

definition lower_char :: "char \<Rightarrow> char" where
  "lower_char c =
     (case map_of (zip ''ABCDEFGHIJKLMNOPQRSTUVWXYZ'' ''abcdefghijklmnopqrstuvwxyz'') c of
        None \<Rightarrow> c
      | Some l \<Rightarrow> l)"

definition toLowerCase :: "string \<Rightarrow> string" where
  "toLowerCase s = map lower_char s"

text \<open>\<open>.from('profiles').select('role').eq('id', user.id).single()\<close>\<close>

definition select_role :: "env \<Rightarrow> db \<Rightarrow> uuid \<Rightarrow> string option" where
  "select_role e d uid =
     (if unavailable e ProfileSelect then None
      else map_option role (single (filter (\<lambda>p. p_id p = uid) (profiles d))))"

text \<open>\<open>.from('access_requests').select('profile_id, ip_address, status')
   .eq('id', request_id).single()\<close>\<close>

definition select_request :: "env \<Rightarrow> db \<Rightarrow> string \<Rightarrow> (uuid \<times> string \<times> request_status) option" where
  "select_request e d request_id =
     (if unavailable e RequestSelect then None
      else map_option (\<lambda>r. (profile_id r, ar_ip_address r, status r))
             (single (filter (\<lambda>r. ar_id r = request_id) (access_requests d))))"

text \<open>\<open>.from('access_requests').update({ status, resolved_at, resolved_by }).eq('id', request_id)\<close>;
  \<open>None\<close> is \<open>updateError\<close>.\<close>

definition update_request :: "env \<Rightarrow> db \<Rightarrow> string \<Rightarrow> request_status \<Rightarrow> uuid \<Rightarrow> db option" where
  "update_request e d request_id st uid =
     (if unavailable e RequestUpdate then None
      else Some (d\<lparr>access_requests :=
             map (\<lambda>r. if ar_id r = request_id
                       then r\<lparr>status := st, resolved_at := Some (js_now e), resolved_by := Some uid\<rparr>
                       else r)
                 (access_requests d)\<rparr>))"

text \<open>\<open>.from('allowed_ips').insert({ ip_address, description, created_by })\<close>;
  \<open>None\<close> is \<open>ipError\<close>. The primary key rejects an id that is taken and the UNIQUE
  constraint an address that is listed.\<close>

definition insert_allowed_ip :: "env \<Rightarrow> db \<Rightarrow> string \<Rightarrow> uuid \<Rightarrow> db option" where
  "insert_allowed_ip e d ip uid =
     (if unavailable e AllowedIpInsert
         \<or> uuid_generate_v4 e \<in> set (map ip_id (allowed_ips d))
         \<or> ip \<in> set (map ip_address (allowed_ips d))
      then None
      else Some (d\<lparr>allowed_ips := allowed_ips d @
                   [\<lparr>ip_id = uuid_generate_v4 e, ip_address = ip,
                     description = Some ''Auto-approved for CS user access'',
                     created_by = Some uid, created_at = db_now e\<rparr>]\<rparr>))"

definition resolved_response :: "string \<Rightarrow> response" where
  "resolved_response action =
     json_response 200
       [(''success'', JBool True),
        (''action'', JStr action),
        (''message'', JStr (''Access request '' @ toLowerCase action @ ''d successfully''))]"

text \<open>
  The POST handler of \<open>resolve-access-request\<close>. \<open>authHeader\<close> is
  \<open>req.headers.get('Authorization')\<close>; \<open>reqBody\<close> is \<open>{ request_id, action }\<close> of
  \<open>await req.json()\<close>, \<open>None\<close> when the body does not parse (the exception ends in the
  \<open>catch\<close> block). The third component is what \<open>console.error\<close> has written.
\<close>

definition resolve_access_request ::
  "env \<Rightarrow> db \<Rightarrow> string option \<Rightarrow> (string \<times> string) option \<Rightarrow> response \<times> db \<times> string list" where
  "resolve_access_request e d authHeader reqBody =
     (case authHeader of
        None \<Rightarrow> (error_response 401 ''Authorization required'', d, [])
      | Some h \<Rightarrow>
          if h = [] then (error_response 401 ''Authorization required'', d, [])
          else
            (case getUser e (remove_first ''Bearer '' h) of
               None \<Rightarrow> (error_response 401 ''Invalid authentication'', d, [])
             | Some uid \<Rightarrow>
                 if select_role e d uid \<noteq> Some ''ADMIN''
                 then (error_response 403 ''Admin access required'', d, [])
                 else
                   (case reqBody of
                      None \<Rightarrow>
                        (error_response 500 ''Internal server error'', d,
                         [''Resolve access request error:''])
                    | Some (request_id, action) \<Rightarrow>
                        if request_id = [] \<or> action \<notin> set [''APPROVE'', ''DENY'']
                        then (error_response 400 ''Invalid request parameters'', d, [])
                        else
                          (case select_request e d request_id of
                             None \<Rightarrow> (error_response 404 ''Access request not found'', d, [])
                           | Some (req_profile, req_ip, req_status) \<Rightarrow>
                               if req_status \<noteq> PENDING
                               then (error_response 400 ''Request already resolved'', d, [])
                               else
                                 (case update_request e d request_id
                                         (if action = ''APPROVE'' then APPROVED else DENIED) uid of
                                    None \<Rightarrow>
                                      (error_response 500 ''Failed to update request'', d, [])
                                  | Some d1 \<Rightarrow>
                                      if action = ''APPROVE'' then
                                        (case insert_allowed_ip e d1 req_ip uid of
                                           None \<Rightarrow>
                                             (resolved_response action, d1,
                                              [''Failed to add IP to allowed list:''])
                                         | Some d2 \<Rightarrow> (resolved_response action, d2, []))
                                      else (resolved_response action, d1, []))))))"

text \<open>Rewriting the \<open>is_active\<close> column of every profile.\<close>

definition with_is_active :: "(profiles_row \<Rightarrow> bool) \<Rightarrow> db \<Rightarrow> db" where
  "with_is_active f d = d\<lparr>profiles := map (\<lambda>p. p\<lparr>is_active := f p\<rparr>) (profiles d)\<rparr>"

subsection \<open>The demo installation\<close>

text \<open>The two demo users of the migration \<open>20250621021740_foggy_manor.sql\<close>
  (\<open>admin@fmf.com\<close> and \<open>cs@fmf.com\<close>, password \<open>password123\<close>), with made-up ids.\<close>

definition demo_db :: db where
  "demo_db =
     \<lparr>profiles =
        [\<lparr>p_id = ''u-admin'', full_name = ''Admin User'', role = ''ADMIN'', is_active = True\<rparr>,
         \<lparr>p_id = ''u-cs'', full_name = ''Customer Service'', role = ''CS'', is_active = True\<rparr>],
      allowed_ips = [],
      access_requests = []\<rparr>"

definition demo_admin_auth :: auth_data where
  "demo_admin_auth =
     \<lparr>user_id = ''u-admin'', user = JObj [(''id'', JStr ''u-admin'')], session = JStr ''s-admin''\<rparr>"

definition demo_cs_auth :: auth_data where
  "demo_cs_auth =
     \<lparr>user_id = ''u-cs'', user = JObj [(''id'', JStr ''u-cs'')], session = JStr ''s-cs''\<rparr>"

definition demo_sign_in :: "string \<Rightarrow> string \<Rightarrow> auth_data option" where
  "demo_sign_in email password =
     (if password = ''password123'' \<and> email = ''admin@fmf.com'' then Some demo_admin_auth
      else if password = ''password123'' \<and> email = ''cs@fmf.com'' then Some demo_cs_auth
      else None)"

definition demo_get_user :: "string \<Rightarrow> uuid option" where
  "demo_get_user token =
     (if token = ''t-admin'' then Some ''u-admin''
      else if token = ''t-cs'' then Some ''u-cs''
      else None)"

text \<open>An invocation in which every storage call is served and the storage draws
  the id \<open>u\<close>.\<close>

definition demo_env :: "uuid \<Rightarrow> env" where
  "demo_env u =
     \<lparr>signInWithPassword = demo_sign_in, getUser = demo_get_user,
      unavailable = (\<lambda>c. False), uuid_generate_v4 = u,
      db_now = ''2025-06-21T02:11:10Z'', js_now = ''2025-06-21T02:11:10.000Z''\<rparr>"

text \<open>The same with one storage call failing.\<close>

definition demo_env_failing :: "storage_call \<Rightarrow> uuid \<Rightarrow> env" where
  "demo_env_failing c u = (demo_env u)\<lparr>unavailable := (\<lambda>x. x = c)\<rparr>"

text \<open>The demo database with one access request of the CS user from \<open>10.0.0.5\<close>, in the
  given status, and the same with the address listed already.\<close>

definition demo_request :: "request_status \<Rightarrow> access_requests_row" where
  "demo_request st =
     \<lparr>ar_id = ''r1'', profile_id = ''u-cs'', ar_ip_address = ''10.0.0.5'', status = st,
      requested_at = ''2025-06-21T02:11:10Z'',
      resolved_at = (if st = PENDING then None else Some ''2025-06-21T03:00:00.000Z''),
      resolved_by = (if st = PENDING then None else Some ''u-admin'')\<rparr>"

definition demo_db_with :: "request_status \<Rightarrow> db" where
  "demo_db_with st = demo_db\<lparr>access_requests := [demo_request st]\<rparr>"

definition demo_db_listed :: db where
  "demo_db_listed =
     (demo_db_with PENDING)
       \<lparr>allowed_ips :=
          [\<lparr>ip_id = ''a0'', ip_address = ''10.0.0.5'', description = None,
            created_by = Some ''u-admin'', created_at = ''2025-06-21T02:00:00Z''\<rparr>]\<rparr>"

section \<open>Properties\<close>

subsection \<open>Basic facts\<close>

lemma single_Some_iff: "single xs = Some x \<longleftrightarrow> xs = [x]"
  by (cases xs rule: single.cases) auto

lemma attempt_login_phases:
  "attempt_login e d email password ip =
     (case login_reads e d email password ip of
        Responded r \<Rightarrow> (r, d)
      | ToInsert uid a \<Rightarrow> login_insert e d uid a)"
  by (simp add: attempt_login_def login_reads_def login_insert_def split: option.splits)

lemma filter_key_distinct:
  "distinct (map f xs) \<Longrightarrow>
     filter (\<lambda>r. f r = k) xs = (case find (\<lambda>r. f r = k) xs of None \<Rightarrow> [] | Some r \<Rightarrow> [r])"
proof (induction xs)
  case Nil
  then show ?case by simp
next
  case (Cons x xs)
  show ?case
  proof (cases "f x = k")
    case True
    with Cons.prems have "\<forall>r \<in> set xs. f r \<noteq> k"
      by (auto simp: image_iff)
    then have "filter (\<lambda>r. f r = k) xs = []"
      by (simp add: filter_empty_conv)
    with True show ?thesis by simp
  next
    case False
    with Cons show ?thesis by simp
  qed
qed

lemma single_None_length: "single xs = None \<Longrightarrow> length xs \<le> 1 \<Longrightarrow> xs = []"
  by (cases xs rule: single.cases) auto

lemma login_reads_ToInsert:
  "login_reads e d email password a = ToInsert uid a'
     \<Longrightarrow> a' = a \<and> select_pending e d uid a = None"
  by (auto simp add: login_reads_def split: option.splits if_splits)

lemma login_insert_effect:
  "snd (login_insert e d uid a) = d
   \<or> snd (login_insert e d uid a)
        = d\<lparr>access_requests := access_requests d @
             [\<lparr>ar_id = uuid_generate_v4 e, profile_id = uid, ar_ip_address = a,
               status = PENDING, requested_at = db_now e,
               resolved_at = None, resolved_by = None\<rparr>]\<rparr>"
  by (simp add: login_insert_def insert_access_request_def)

lemma sequential_login_keeps_pending_unique:
  assumes "pending_count d uid ip \<le> 1" and "\<not> unavailable e PendingSelect"
  shows "pending_count (snd (attempt_login e d email password a)) uid ip \<le> 1"
proof (cases "login_reads e d email password a")
  case (Responded r)
  with assms show ?thesis by (simp add: attempt_login_phases)
next
  case (ToInsert u a')
  then have a': "a' = a" and none: "select_pending e d u a = None"
    using login_reads_ToInsert by blast+
  have snd_eq: "snd (attempt_login e d email password a) = snd (login_insert e d u a)"
    using ToInsert a' by (simp add: attempt_login_phases)
  show ?thesis
  proof (cases "u = uid \<and> a = ip")
    case True
    with none assms have "filter (is_pending_for uid ip) (access_requests d) = []"
      by (auto simp add: select_pending_def pending_count_def intro: single_None_length)
    with True login_insert_effect [of e d u a] show ?thesis
      unfolding snd_eq by (auto simp add: pending_count_def is_pending_for_def)
  next
    case False
    with assms login_insert_effect [of e d u a] show ?thesis
      unfolding snd_eq by (auto simp add: pending_count_def is_pending_for_def)
  qed
qed

lemma pending_filter_update:
  "st \<noteq> PENDING \<Longrightarrow>
     length (filter (is_pending_for uid ip)
        (map (\<lambda>r. if ar_id r = k
                   then r\<lparr>status := st, resolved_at := t, resolved_by := b\<rparr> else r) xs))
       \<le> length (filter (is_pending_for uid ip) xs)"
  by (induction xs) (auto simp add: is_pending_for_def simp del: length_filter_map)

lemma resolve_keeps_pending_unique:
  "pending_count (fst (snd (resolve_access_request e d authHeader reqBody))) uid ip
     \<le> pending_count d uid ip"
  by (auto simp add: resolve_access_request_def update_request_def
      insert_allowed_ip_def pending_count_def pending_filter_update
      simp del: length_filter_map split: option.splits if_splits)

lemmas demo_simps =
  demo_env_def demo_db_def demo_sign_in_def demo_cs_auth_def demo_admin_auth_def
  demo_get_user_def demo_env_failing_def demo_request_def demo_db_with_def demo_db_listed_def

subsection \<open>One pending request for each profile and address\<close>

text \<open>
  C1. The table \<open>access_requests\<close> has no uniqueness constraint besides its primary key,
  and the handler selects the pending request and inserts a new one in two storage
  calls. Two logins of the demo CS user from \<open>10.0.0.5\<close>, both past their select before
  either inserts: each select finds no pending request, each insert goes through, the two
  callers get different request ids, and the pair has two PENDING rows.
  (Run one after the other, with the select served, the handlers keep the number of PENDING
  rows of a pair at most one: \<open>sequential_login_keeps_pending_unique\<close>,
  \<open>resolve_keeps_pending_unique\<close>.)
\<close>

theorem pending_request_race:
  "login_reads (demo_env ''r1'') demo_db ''cs@fmf.com'' ''password123'' ''10.0.0.5''
     = ToInsert ''u-cs'' ''10.0.0.5''
   \<and> login_reads (demo_env ''r2'') demo_db ''cs@fmf.com'' ''password123'' ''10.0.0.5''
     = ToInsert ''u-cs'' ''10.0.0.5''
   \<and> pending_count demo_db ''u-cs'' ''10.0.0.5'' = 0
   \<and> fst (login_insert (demo_env ''r1'') demo_db ''u-cs'' ''10.0.0.5'') = pending_response ''r1''
   \<and> fst (login_insert (demo_env ''r2'')
            (snd (login_insert (demo_env ''r1'') demo_db ''u-cs'' ''10.0.0.5''))
            ''u-cs'' ''10.0.0.5'') = pending_response ''r2''
   \<and> pending_count
        (snd (login_insert (demo_env ''r2'')
               (snd (login_insert (demo_env ''r1'') demo_db ''u-cs'' ''10.0.0.5''))
               ''u-cs'' ''10.0.0.5''))
        ''u-cs'' ''10.0.0.5'' = 2"
  by (simp add: login_reads_def login_insert_def select_profile_def select_allowed_ip_def
      select_pending_def insert_access_request_def pending_count_def is_pending_for_def
      demo_simps)

subsection \<open>The login decision\<close>

text \<open>
  C2. When the identity store rejects the credentials, the POST branch answers
  401 \<open>{ error: "Invalid credentials" }\<close> and writes nothing, whatever the profiles, the
  allowed addresses, the access requests and the client address are: the sign-in is the
  first step and nothing of the tables is read before it. The response is neither the
  pending one nor the granted one.
\<close>

theorem wrong_password_invalid_credentials:
  assumes "signInWithPassword e email password = None"
  shows "attempt_login e d email password ip = (error_response 401 ''Invalid credentials'', d)
       \<and> (\<forall>requestId. fst (attempt_login e d email password ip) \<noteq> pending_response requestId)
       \<and> (\<forall>authData profile.
             fst (attempt_login e d email password ip) \<noteq> granted_response authData profile)"
  using assms
  by (simp add: attempt_login_def error_response_def pending_response_def
      granted_response_def json_response_def)

theorem wrong_password_invalid_credentials_witness:
  "signInWithPassword (demo_env ''r1'') ''cs@fmf.com'' ''wrong'' = None
   \<and> attempt_login (demo_env ''r1'') demo_db ''cs@fmf.com'' ''wrong'' ''10.0.0.5''
       = (error_response 401 ''Invalid credentials'', demo_db)"
proof -
  have h: "signInWithPassword (demo_env ''r1'') ''cs@fmf.com'' ''wrong'' = None"
    by (simp add: demo_env_def demo_sign_in_def)
  from wrong_password_invalid_credentials [OF h, of demo_db "''10.0.0.5''"] h
  show ?thesis by simp
qed

text \<open>
  C3. A signed-in user whose profile has the role ADMIN is granted from every
  address: the response is the granted one and the database is as before, whatever
  the tables \<open>allowed_ips\<close> and \<open>access_requests\<close> hold. The response has status 200
  and the body \<open>{ success: true, user, profile, session }\<close>, with \<open>user\<close> and \<open>session\<close>
  those of the sign-in and \<open>profile\<close> the role and the full name of the profile row.
\<close>

theorem admin_granted_from_any_address:
  assumes "signInWithPassword e email password = Some authData"
    and "\<not> unavailable e ProfileSelect"
    and "filter (\<lambda>p. p_id p = user_id authData) (profiles d) = [p]"
    and "role p = ''ADMIN''"
  shows "attempt_login e (d\<lparr>allowed_ips := ips, access_requests := reqs\<rparr>) email password ip
           = (granted_response authData (''ADMIN'', full_name p),
              d\<lparr>allowed_ips := ips, access_requests := reqs\<rparr>)
       \<and> status_code (fst (attempt_login e (d\<lparr>allowed_ips := ips, access_requests := reqs\<rparr>)
                             email password ip)) = 200
       \<and> body (fst (attempt_login e (d\<lparr>allowed_ips := ips, access_requests := reqs\<rparr>)
                      email password ip))
           = [(''success'', JBool True),
              (''user'', user authData),
              (''profile'', JObj [(''role'', JStr ''ADMIN''), (''full_name'', JStr (full_name p))]),
              (''session'', session authData)]
       \<and> body_field (fst (attempt_login e (d\<lparr>allowed_ips := ips, access_requests := reqs\<rparr>)
                            email password ip)) ''success'' = Some (JBool True)
       \<and> body_field (fst (attempt_login e (d\<lparr>allowed_ips := ips, access_requests := reqs\<rparr>)
                            email password ip)) ''user'' = Some (user authData)
       \<and> body_field (fst (attempt_login e (d\<lparr>allowed_ips := ips, access_requests := reqs\<rparr>)
                            email password ip)) ''profile''
           = Some (JObj [(''role'', JStr ''ADMIN''), (''full_name'', JStr (full_name p))])
       \<and> body_field (fst (attempt_login e (d\<lparr>allowed_ips := ips, access_requests := reqs\<rparr>)
                            email password ip)) ''session'' = Some (session authData)"
proof -
  have run: "attempt_login e (d\<lparr>allowed_ips := ips, access_requests := reqs\<rparr>) email password ip
           = (granted_response authData (''ADMIN'', full_name p),
              d\<lparr>allowed_ips := ips, access_requests := reqs\<rparr>)"
    using assms by (simp add: attempt_login_def select_profile_def)
  show ?thesis
    unfolding run by (simp add: granted_response_def json_response_def body_field_def)
qed

theorem admin_granted_from_any_address_witness:
  "attempt_login (demo_env ''r1'') (demo_db\<lparr>allowed_ips := [], access_requests := []\<rparr>)
      ''admin@fmf.com'' ''password123'' ''unknown''
     = (granted_response demo_admin_auth (''ADMIN'', ''Admin User''),
        demo_db\<lparr>allowed_ips := [], access_requests := []\<rparr>)
   \<and> status_code (fst (attempt_login (demo_env ''r1'')
         (demo_db\<lparr>allowed_ips := [], access_requests := []\<rparr>)
         ''admin@fmf.com'' ''password123'' ''unknown'')) = 200
   \<and> body (fst (attempt_login (demo_env ''r1'')
         (demo_db\<lparr>allowed_ips := [], access_requests := []\<rparr>)
         ''admin@fmf.com'' ''password123'' ''unknown''))
       = [(''success'', JBool True),
          (''user'', JObj [(''id'', JStr ''u-admin'')]),
          (''profile'', JObj [(''role'', JStr ''ADMIN''), (''full_name'', JStr ''Admin User'')]),
          (''session'', JStr ''s-admin'')]"
  using admin_granted_from_any_address
    [of "demo_env ''r1''" "''admin@fmf.com''" "''password123''" demo_admin_auth demo_db
      "\<lparr>p_id = ''u-admin'', full_name = ''Admin User'', role = ''ADMIN'', is_active = True\<rparr>"
      "[]" "[]" "''unknown''"]
  by (auto simp add: demo_simps)

text \<open>
  C4. A signed-in CS user at an address that is not listed and has no pending request
  of theirs: the first login inserts a PENDING request under the id the storage draws (an
  id no row had) and answers with it; a second login of the same user from the same
  address, run on the database the first one left, answers with the same id and
  leaves the database as it is. Both responses have status 200 and the body
  \<open>{ success: false, status: "PENDING_APPROVAL", message, request_id }\<close>, and the
  \<open>request_id\<close> of both is the id of the row the first login inserted.
\<close>

theorem first_login_defers_second_reuses:
  assumes "signInWithPassword e1 email password = Some a1"
    and "signInWithPassword e2 email password = Some a2"
    and "user_id a2 = user_id a1"
    and "\<not> unavailable e1 ProfileSelect" and "\<not> unavailable e2 ProfileSelect"
    and "filter (\<lambda>p. p_id p = user_id a1) (profiles d) = [p]" and "role p = ''CS''"
    and "ip \<notin> set (map ip_address (allowed_ips d))"
    and "filter (is_pending_for (user_id a1) ip) (access_requests d) = []"
    and "\<not> unavailable e1 RequestInsert"
    and "uuid_generate_v4 e1 \<notin> set (map ar_id (access_requests d))"
    and "\<not> unavailable e2 PendingSelect"
  shows "attempt_login e1 d email password ip =
           (pending_response (uuid_generate_v4 e1),
            d\<lparr>access_requests := access_requests d @
                 [\<lparr>ar_id = uuid_generate_v4 e1, profile_id = user_id a1, ar_ip_address = ip,
                   status = PENDING, requested_at = db_now e1,
                   resolved_at = None, resolved_by = None\<rparr>]\<rparr>)
       \<and> attempt_login e2 (snd (attempt_login e1 d email password ip)) email password ip =
           (pending_response (uuid_generate_v4 e1), snd (attempt_login e1 d email password ip))
       \<and> status_code (fst (attempt_login e1 d email password ip)) = 200
       \<and> body (fst (attempt_login e1 d email password ip))
           = [(''success'', JBool False),
              (''status'', JStr ''PENDING_APPROVAL''),
              (''message'', JStr ''Access request pending admin approval''),
              (''request_id'', JStr (uuid_generate_v4 e1))]
       \<and> body_field (fst (attempt_login e1 d email password ip)) ''request_id''
           = Some (JStr (uuid_generate_v4 e1))
       \<and> status_code (fst (attempt_login e2 (snd (attempt_login e1 d email password ip))
                             email password ip)) = 200
       \<and> body (fst (attempt_login e2 (snd (attempt_login e1 d email password ip))
                      email password ip))
           = [(''success'', JBool False),
              (''status'', JStr ''PENDING_APPROVAL''),
              (''message'', JStr ''Access request pending admin approval''),
              (''request_id'', JStr (uuid_generate_v4 e1))]
       \<and> body_field (fst (attempt_login e2 (snd (attempt_login e1 d email password ip))
                            email password ip)) ''request_id''
           = Some (JStr (uuid_generate_v4 e1))
       \<and> ar_id (last (access_requests (snd (attempt_login e1 d email password ip))))
           = uuid_generate_v4 e1"
proof -
  from assms(8) have noip: "filter (\<lambda>a. ip_address a = ip) (allowed_ips d) = []"
    by (auto simp: filter_empty_conv)
  have first: "attempt_login e1 d email password ip =
           (pending_response (uuid_generate_v4 e1),
            d\<lparr>access_requests := access_requests d @
                 [\<lparr>ar_id = uuid_generate_v4 e1, profile_id = user_id a1, ar_ip_address = ip,
                   status = PENDING, requested_at = db_now e1,
                   resolved_at = None, resolved_by = None\<rparr>]\<rparr>)"
    using assms noip
    by (simp add: attempt_login_def select_profile_def select_allowed_ip_def select_pending_def
        insert_access_request_def)
  have second: "attempt_login e2 (d\<lparr>access_requests := access_requests d @
                 [\<lparr>ar_id = uuid_generate_v4 e1, profile_id = user_id a1, ar_ip_address = ip,
                   status = PENDING, requested_at = db_now e1,
                   resolved_at = None, resolved_by = None\<rparr>]\<rparr>) email password ip
        = (pending_response (uuid_generate_v4 e1), d\<lparr>access_requests := access_requests d @
                 [\<lparr>ar_id = uuid_generate_v4 e1, profile_id = user_id a1, ar_ip_address = ip,
                   status = PENDING, requested_at = db_now e1,
                   resolved_at = None, resolved_by = None\<rparr>]\<rparr>)"
    using assms noip
    by (simp add: attempt_login_def select_profile_def select_allowed_ip_def select_pending_def
        is_pending_for_def)
  show ?thesis
    unfolding first snd_conv second
    by (simp add: pending_response_def json_response_def body_field_def)
qed

theorem first_login_defers_second_reuses_witness:
  "attempt_login (demo_env ''r1'') demo_db ''cs@fmf.com'' ''password123'' ''10.0.0.5'' =
     (pending_response ''r1'',
      demo_db\<lparr>access_requests :=
        [\<lparr>ar_id = ''r1'', profile_id = ''u-cs'', ar_ip_address = ''10.0.0.5'',
          status = PENDING, requested_at = ''2025-06-21T02:11:10Z'',
          resolved_at = None, resolved_by = None\<rparr>]\<rparr>)
   \<and> body_field (fst (attempt_login (demo_env ''r1'') demo_db
         ''cs@fmf.com'' ''password123'' ''10.0.0.5'')) ''request_id'' = Some (JStr ''r1'')
   \<and> body_field (fst (attempt_login (demo_env ''r2'')
        (snd (attempt_login (demo_env ''r1'') demo_db ''cs@fmf.com'' ''password123'' ''10.0.0.5''))
        ''cs@fmf.com'' ''password123'' ''10.0.0.5'')) ''request_id'' = Some (JStr ''r1'')
   \<and> snd (attempt_login (demo_env ''r2'')
        (snd (attempt_login (demo_env ''r1'') demo_db ''cs@fmf.com'' ''password123'' ''10.0.0.5''))
        ''cs@fmf.com'' ''password123'' ''10.0.0.5'')
       = snd (attempt_login (demo_env ''r1'') demo_db ''cs@fmf.com'' ''password123'' ''10.0.0.5'')"
proof -
  have w: "attempt_login (demo_env ''r1'') demo_db ''cs@fmf.com'' ''password123'' ''10.0.0.5'' =
     (pending_response ''r1'',
      demo_db\<lparr>access_requests :=
        [\<lparr>ar_id = ''r1'', profile_id = ''u-cs'', ar_ip_address = ''10.0.0.5'',
          status = PENDING, requested_at = ''2025-06-21T02:11:10Z'',
          resolved_at = None, resolved_by = None\<rparr>]\<rparr>)
   \<and> attempt_login (demo_env ''r2'')
        (snd (attempt_login (demo_env ''r1'') demo_db ''cs@fmf.com'' ''password123'' ''10.0.0.5''))
        ''cs@fmf.com'' ''password123'' ''10.0.0.5'' =
     (pending_response ''r1'',
      snd (attempt_login (demo_env ''r1'') demo_db ''cs@fmf.com'' ''password123'' ''10.0.0.5''))
   \<and> body_field (fst (attempt_login (demo_env ''r1'') demo_db
         ''cs@fmf.com'' ''password123'' ''10.0.0.5'')) ''request_id'' = Some (JStr ''r1'')
   \<and> body_field (fst (attempt_login (demo_env ''r2'')
        (snd (attempt_login (demo_env ''r1'') demo_db ''cs@fmf.com'' ''password123'' ''10.0.0.5''))
        ''cs@fmf.com'' ''password123'' ''10.0.0.5'')) ''request_id'' = Some (JStr ''r1'')"
    using first_login_defers_second_reuses
      [of "demo_env ''r1''" "''cs@fmf.com''" "''password123''" demo_cs_auth
          "demo_env ''r2''" demo_cs_auth demo_db
          "\<lparr>p_id = ''u-cs'', full_name = ''Customer Service'', role = ''CS'', is_active = True\<rparr>"
          "''10.0.0.5''"]
    by (auto simp add: demo_simps)
  then show ?thesis by (elim conjE) (simp only: snd_conv simp_thms)
qed

text \<open>
  C5. A response of the POST branch that carries \<open>status: "PENDING_APPROVAL"\<close> is the
  pending response: its fields are \<open>success\<close> (false), \<open>status\<close>, \<open>message\<close> and
  \<open>request_id\<close>, in this order, and it has no field \<open>user\<close>, \<open>profile\<close> or \<open>session\<close>.
\<close>

theorem deferred_response_fields:
  assumes "body_field (fst (attempt_login e d email password ip)) ''status''
             = Some (JStr ''PENDING_APPROVAL'')"
  shows "(\<exists>requestId. fst (attempt_login e d email password ip) = pending_response requestId)
       \<and> status_code (fst (attempt_login e d email password ip)) = 200
       \<and> keys (fst (attempt_login e d email password ip))
           = [''success'', ''status'', ''message'', ''request_id'']
       \<and> body_field (fst (attempt_login e d email password ip)) ''success'' = Some (JBool False)
       \<and> body_field (fst (attempt_login e d email password ip)) ''user'' = None
       \<and> body_field (fst (attempt_login e d email password ip)) ''profile'' = None
       \<and> body_field (fst (attempt_login e d email password ip)) ''session'' = None"
  using assms
  by (auto simp add: attempt_login_def body_field_def keys_def error_response_def
      granted_response_def pending_response_def json_response_def
      split: option.splits if_splits)

theorem deferred_response_fields_witness:
  "body_field (fst (attempt_login (demo_env ''r1'') demo_db ''cs@fmf.com''
       ''password123'' ''10.0.0.5'')) ''status'' = Some (JStr ''PENDING_APPROVAL'')
   \<and> keys (fst (attempt_login (demo_env ''r1'') demo_db ''cs@fmf.com''
       ''password123'' ''10.0.0.5'')) = [''success'', ''status'', ''message'', ''request_id'']
   \<and> body_field (fst (attempt_login (demo_env ''r1'') demo_db ''cs@fmf.com''
       ''password123'' ''10.0.0.5'')) ''session'' = None"
proof -
  have h: "body_field (fst (attempt_login (demo_env ''r1'') demo_db ''cs@fmf.com''
       ''password123'' ''10.0.0.5'')) ''status'' = Some (JStr ''PENDING_APPROVAL'')"
    by (simp add: attempt_login_def select_profile_def select_allowed_ip_def
        select_pending_def insert_access_request_def pending_response_def json_response_def
        body_field_def demo_simps)
  from deferred_response_fields [OF h] h show ?thesis by simp
qed

text \<open>
  C10. The POST branch does not depend on the column \<open>is_active\<close>: with the column
  rewritten in any way, the response is the same and the database afterwards is the
  one of the original run with the column rewritten the same way.
\<close>

theorem login_ignores_is_active:
  "attempt_login e (with_is_active f d) email password ip
     = (fst (attempt_login e d email password ip),
        with_is_active f (snd (attempt_login e d email password ip)))"
proof -
  have p: "select_profile e (with_is_active f d) uid = select_profile e d uid" for uid
    by (simp add: select_profile_def with_is_active_def filter_map comp_def)
       (cases "filter (\<lambda>p. p_id p = uid) (profiles d)" rule: single.cases; simp)
  have a: "select_allowed_ip e (with_is_active f d) a = select_allowed_ip e d a" for a
    by (simp add: select_allowed_ip_def with_is_active_def)
  have q: "select_pending e (with_is_active f d) uid a = select_pending e d uid a" for uid a
    by (simp add: select_pending_def with_is_active_def)
  have i: "insert_access_request e (with_is_active f d) uid a
             = map_option (\<lambda>(n, d'). (n, with_is_active f d')) (insert_access_request e d uid a)"
    for uid a
    by (simp add: insert_access_request_def with_is_active_def)
  show ?thesis
    by (simp add: attempt_login_def p a q i split: option.splits)
qed

theorem login_ignores_is_active_witness:
  "fst (attempt_login (demo_env ''r1'') (with_is_active (\<lambda>p. False) demo_db)
          ''cs@fmf.com'' ''password123'' ''10.0.0.5'')
     = pending_response ''r1''"
proof -
  have plain: "fst (attempt_login (demo_env ''r1'') demo_db
                  ''cs@fmf.com'' ''password123'' ''10.0.0.5'') = pending_response ''r1''"
    by (simp add: attempt_login_def select_profile_def select_allowed_ip_def
        select_pending_def insert_access_request_def demo_simps)
  show ?thesis
    by (simp only: login_ignores_is_active fst_conv plain)
qed

subsection \<open>The status query\<close>

text \<open>
  C9. The status query writes nothing. When the storage serves the select, and the ids
  of \<open>access_requests\<close> are distinct (the primary key), it answers with \<open>status\<close> and
  \<open>resolved_at\<close> of the row that has the id, and with 404 \<open>{ error: "Request not found" }\<close>
  when no row has it. In the first case the response has status 200, the fields \<open>status\<close>
  and \<open>resolved_at\<close> and no other, \<open>status\<close> is the text of the row's status and
  \<open>resolved_at\<close> is the row's time of resolution, or null when it has none.
\<close>

theorem status_query_pure_read:
  "snd (get_request_status e d requestId) = d \<and>
   (\<not> unavailable e StatusSelect \<longrightarrow> distinct (map ar_id (access_requests d)) \<longrightarrow>
    fst (get_request_status e d requestId) =
      (case find (\<lambda>r. ar_id r = requestId) (access_requests d) of
         None \<Rightarrow> error_response 404 ''Request not found''
       | Some r \<Rightarrow> status_response (status r, resolved_at r))) \<and>
   (\<not> unavailable e StatusSelect \<longrightarrow> distinct (map ar_id (access_requests d)) \<longrightarrow>
      (case find (\<lambda>r. ar_id r = requestId) (access_requests d) of
         None \<Rightarrow>
           status_code (fst (get_request_status e d requestId)) = 404
           \<and> body (fst (get_request_status e d requestId))
               = [(''error'', JStr ''Request not found'')]
       | Some r \<Rightarrow>
           status_code (fst (get_request_status e d requestId)) = 200
           \<and> keys (fst (get_request_status e d requestId)) = [''status'', ''resolved_at'']
           \<and> body_field (fst (get_request_status e d requestId)) ''status''
               = Some (JStr (case status r of
                               PENDING \<Rightarrow> ''PENDING''
                             | APPROVED \<Rightarrow> ''APPROVED''
                             | DENIED \<Rightarrow> ''DENIED''))
           \<and> body_field (fst (get_request_status e d requestId)) ''resolved_at''
               = Some (case resolved_at r of None \<Rightarrow> JNull | Some t \<Rightarrow> JStr t)))"
proof (intro conjI impI)
  show "snd (get_request_status e d requestId) = d"
    by (simp add: get_request_status_def split: option.splits)
next
  assume "\<not> unavailable e StatusSelect" and "distinct (map ar_id (access_requests d))"
  then show "fst (get_request_status e d requestId) =
      (case find (\<lambda>r. ar_id r = requestId) (access_requests d) of
         None \<Rightarrow> error_response 404 ''Request not found''
       | Some r \<Rightarrow> status_response (status r, resolved_at r))"
    by (simp add: get_request_status_def select_status_def filter_key_distinct
        split: option.splits)
next
  assume served: "\<not> unavailable e StatusSelect"
    and pk: "distinct (map ar_id (access_requests d))"
  then have run: "fst (get_request_status e d requestId) =
      (case find (\<lambda>r. ar_id r = requestId) (access_requests d) of
         None \<Rightarrow> error_response 404 ''Request not found''
       | Some r \<Rightarrow> status_response (status r, resolved_at r))"
    by (simp add: get_request_status_def select_status_def filter_key_distinct
        split: option.splits)
  show "case find (\<lambda>r. ar_id r = requestId) (access_requests d) of
         None \<Rightarrow>
           status_code (fst (get_request_status e d requestId)) = 404
           \<and> body (fst (get_request_status e d requestId))
               = [(''error'', JStr ''Request not found'')]
       | Some r \<Rightarrow>
           status_code (fst (get_request_status e d requestId)) = 200
           \<and> keys (fst (get_request_status e d requestId)) = [''status'', ''resolved_at'']
           \<and> body_field (fst (get_request_status e d requestId)) ''status''
               = Some (JStr (case status r of
                               PENDING \<Rightarrow> ''PENDING''
                             | APPROVED \<Rightarrow> ''APPROVED''
                             | DENIED \<Rightarrow> ''DENIED''))
           \<and> body_field (fst (get_request_status e d requestId)) ''resolved_at''
               = Some (case resolved_at r of None \<Rightarrow> JNull | Some t \<Rightarrow> JStr t)"
  proof (cases "find (\<lambda>r. ar_id r = requestId) (access_requests d)")
    case None
    with run show ?thesis
      by (simp add: error_response_def json_response_def)
  next
    case (Some r)
    with run show ?thesis
      by (cases "status r")
         (simp_all add: status_response_def json_response_def keys_def body_field_def)
  qed
qed

theorem status_query_pure_read_witness:
  "get_request_status (demo_env ''x'') (demo_db_with APPROVED) ''r1''
     = (status_response (APPROVED, Some ''2025-06-21T03:00:00.000Z''), demo_db_with APPROVED)
   \<and> get_request_status (demo_env ''x'') (demo_db_with APPROVED) ''r9''
     = (error_response 404 ''Request not found'', demo_db_with APPROVED)
   \<and> status_code (fst (get_request_status (demo_env ''x'') (demo_db_with APPROVED) ''r1'')) = 200
   \<and> body_field (fst (get_request_status (demo_env ''x'') (demo_db_with APPROVED) ''r1''))
        ''status'' = Some (JStr ''APPROVED'')
   \<and> body_field (fst (get_request_status (demo_env ''x'') (demo_db_with APPROVED) ''r1''))
        ''resolved_at'' = Some (JStr ''2025-06-21T03:00:00.000Z'')
   \<and> status_code (fst (get_request_status (demo_env ''x'') (demo_db_with APPROVED) ''r9'')) = 404"
  using status_query_pure_read [of "demo_env ''x''" "demo_db_with APPROVED" "''r1''"]
    status_query_pure_read [of "demo_env ''x''" "demo_db_with APPROVED" "''r9''"]
  by (auto simp add: demo_simps prod_eq_iff)

subsection \<open>The resolver\<close>

text \<open>
  C7. An administrator resolving a request that is no longer PENDING, with either
  action, gets 400 \<open>{ error: "Request already resolved" }\<close>; the database is as before
  (no row of \<open>access_requests\<close> changes and none is added to \<open>allowed_ips\<close>) and nothing
  is logged.
\<close>

theorem resolved_request_rejected:
  assumes "h \<noteq> []"
    and "getUser e (remove_first ''Bearer '' h) = Some uid"
    and "select_role e d uid = Some ''ADMIN''"
    and "request_id \<noteq> []"
    and "action = ''APPROVE'' \<or> action = ''DENY''"
    and "\<not> unavailable e RequestSelect"
    and "filter (\<lambda>r. ar_id r = request_id) (access_requests d) = [r]"
    and "status r \<noteq> PENDING"
  shows "resolve_access_request e d (Some h) (Some (request_id, action))
           = (error_response 400 ''Request already resolved'', d, [])"
  using assms by (auto simp add: resolve_access_request_def select_request_def)

theorem resolved_request_rejected_witness:
  "resolve_access_request (demo_env ''a1'') (demo_db_with DENIED) (Some ''Bearer t-admin'')
      (Some (''r1'', ''APPROVE''))
     = (error_response 400 ''Request already resolved'', demo_db_with DENIED, [])"
  using resolved_request_rejected
    [of "''Bearer t-admin''" "demo_env ''a1''" "''u-admin''" "demo_db_with DENIED" "''r1''"
        "''APPROVE''" "demo_request DENIED"]
  by (simp add: demo_simps select_role_def)

text \<open>
  C8. An administrator approving a PENDING request: once the update of the request has
  gone through, the response is 200 \<open>{ success: true, action: "APPROVE", message }\<close> and
  the row is APPROVED with its resolution stamped, whatever becomes of the insert into
  \<open>allowed_ips\<close>. When that insert fails (the storage call fails, the address is listed
  already, or the id is taken), \<open>allowed_ips\<close> stays as it was and the failure goes to the
  log only. The response has status 200, \<open>success\<close> true, \<open>action\<close> \<open>"APPROVE"\<close>, the
  message \<open>"Access request approved successfully"\<close> and no field \<open>error\<close>.
\<close>

theorem approve_succeeds_when_insert_fails:
  assumes "h \<noteq> []"
    and "getUser e (remove_first ''Bearer '' h) = Some uid"
    and "select_role e d uid = Some ''ADMIN''"
    and "request_id \<noteq> []"
    and "\<not> unavailable e RequestSelect"
    and "filter (\<lambda>r. ar_id r = request_id) (access_requests d) = [r]"
    and "status r = PENDING"
    and "\<not> unavailable e RequestUpdate"
  shows "fst (resolve_access_request e d (Some h) (Some (request_id, ''APPROVE'')))
           = resolved_response ''APPROVE''
       \<and> access_requests (fst (snd (resolve_access_request e d (Some h) (Some (request_id, ''APPROVE'')))))
           = map (\<lambda>x. if ar_id x = request_id
                        then x\<lparr>status := APPROVED, resolved_at := Some (js_now e),
                               resolved_by := Some uid\<rparr>
                        else x) (access_requests d)
       \<and> (unavailable e AllowedIpInsert
            \<or> ar_ip_address r \<in> set (map ip_address (allowed_ips d))
            \<or> uuid_generate_v4 e \<in> set (map ip_id (allowed_ips d))
          \<longrightarrow> allowed_ips (fst (snd (resolve_access_request e d (Some h) (Some (request_id, ''APPROVE'')))))
                = allowed_ips d
            \<and> snd (snd (resolve_access_request e d (Some h) (Some (request_id, ''APPROVE''))))
                = [''Failed to add IP to allowed list:''])
       \<and> status_code (fst (resolve_access_request e d (Some h) (Some (request_id, ''APPROVE''))))
           = 200
       \<and> body (fst (resolve_access_request e d (Some h) (Some (request_id, ''APPROVE''))))
           = [(''success'', JBool True),
              (''action'', JStr ''APPROVE''),
              (''message'', JStr ''Access request approved successfully'')]
       \<and> body_field (fst (resolve_access_request e d (Some h) (Some (request_id, ''APPROVE''))))
            ''success'' = Some (JBool True)
       \<and> body_field (fst (resolve_access_request e d (Some h) (Some (request_id, ''APPROVE''))))
            ''action'' = Some (JStr ''APPROVE'')
       \<and> body_field (fst (resolve_access_request e d (Some h) (Some (request_id, ''APPROVE''))))
            ''error'' = None"
proof -
  have run: "fst (resolve_access_request e d (Some h) (Some (request_id, ''APPROVE'')))
           = resolved_response ''APPROVE''
       \<and> access_requests (fst (snd (resolve_access_request e d (Some h) (Some (request_id, ''APPROVE'')))))
           = map (\<lambda>x. if ar_id x = request_id
                        then x\<lparr>status := APPROVED, resolved_at := Some (js_now e),
                               resolved_by := Some uid\<rparr>
                        else x) (access_requests d)
       \<and> (unavailable e AllowedIpInsert
            \<or> ar_ip_address r \<in> set (map ip_address (allowed_ips d))
            \<or> uuid_generate_v4 e \<in> set (map ip_id (allowed_ips d))
          \<longrightarrow> allowed_ips (fst (snd (resolve_access_request e d (Some h) (Some (request_id, ''APPROVE'')))))
                = allowed_ips d
            \<and> snd (snd (resolve_access_request e d (Some h) (Some (request_id, ''APPROVE''))))
                = [''Failed to add IP to allowed list:''])"
    using assms
    by (auto simp add: resolve_access_request_def select_request_def update_request_def
        insert_allowed_ip_def)
  have shape: "status_code (resolved_response ''APPROVE'') = 200
       \<and> body (resolved_response ''APPROVE'')
           = [(''success'', JBool True),
              (''action'', JStr ''APPROVE''),
              (''message'', JStr ''Access request approved successfully'')]"
    by (simp add: resolved_response_def json_response_def toLowerCase_def lower_char_def)
  from run have resp: "fst (resolve_access_request e d (Some h) (Some (request_id, ''APPROVE'')))
           = resolved_response ''APPROVE''" by blast
  from shape have fields:
    "status_code (fst (resolve_access_request e d (Some h) (Some (request_id, ''APPROVE'')))) = 200
     \<and> body (fst (resolve_access_request e d (Some h) (Some (request_id, ''APPROVE''))))
           = [(''success'', JBool True),
              (''action'', JStr ''APPROVE''),
              (''message'', JStr ''Access request approved successfully'')]"
    unfolding resp .
  from fields have
    "body_field (fst (resolve_access_request e d (Some h) (Some (request_id, ''APPROVE''))))
            ''success'' = Some (JBool True)
     \<and> body_field (fst (resolve_access_request e d (Some h) (Some (request_id, ''APPROVE''))))
            ''action'' = Some (JStr ''APPROVE'')
     \<and> body_field (fst (resolve_access_request e d (Some h) (Some (request_id, ''APPROVE''))))
            ''error'' = None"
    by (simp add: body_field_def)
  with run fields show ?thesis by blast
qed

theorem approve_succeeds_when_insert_fails_witness:
  "fst (resolve_access_request (demo_env ''a1'') demo_db_listed (Some ''Bearer t-admin'')
      (Some (''r1'', ''APPROVE''))) = resolved_response ''APPROVE''
   \<and> map status (access_requests (fst (snd (resolve_access_request (demo_env ''a1'')
        demo_db_listed (Some ''Bearer t-admin'') (Some (''r1'', ''APPROVE'')))))) = [APPROVED]
   \<and> allowed_ips (fst (snd (resolve_access_request (demo_env ''a1'') demo_db_listed
        (Some ''Bearer t-admin'') (Some (''r1'', ''APPROVE''))))) = allowed_ips demo_db_listed
   \<and> snd (snd (resolve_access_request (demo_env ''a1'') demo_db_listed
        (Some ''Bearer t-admin'') (Some (''r1'', ''APPROVE'')))) = [''Failed to add IP to allowed list:'']
   \<and> status_code (fst (resolve_access_request (demo_env ''a1'') demo_db_listed
        (Some ''Bearer t-admin'') (Some (''r1'', ''APPROVE'')))) = 200
   \<and> body (fst (resolve_access_request (demo_env ''a1'') demo_db_listed
        (Some ''Bearer t-admin'') (Some (''r1'', ''APPROVE''))))
       = [(''success'', JBool True),
          (''action'', JStr ''APPROVE''),
          (''message'', JStr ''Access request approved successfully'')]"
  using approve_succeeds_when_insert_fails
    [of "''Bearer t-admin''" "demo_env ''a1''" "''u-admin''" demo_db_listed "''r1''"
        "demo_request PENDING"]
  by (auto simp add: demo_simps select_role_def)

text \<open>
  C6. An administrator approves a PENDING request (the storage calls served, the id
  drawn for the new \<open>allowed_ips\<close> row not taken, the addresses of \<open>allowed_ips\<close>
  distinct as its UNIQUE constraint has them). Afterwards the address of the request is
  listed, and a login of the request's profile from that address, on the database the
  approval left, is granted and writes nothing: its response has status 200 and the body
  \<open>{ success: true, user, profile, session }\<close> with \<open>user\<close> and \<open>session\<close> those of the
  sign-in and \<open>profile\<close> the role and the full name of the profile row, and no field
  \<open>status\<close>. The approval itself answers 200 with \<open>success\<close> true and \<open>action\<close>
  \<open>"APPROVE"\<close>.
\<close>

theorem approve_then_login_granted:
  assumes "h \<noteq> []"
    and "getUser e (remove_first ''Bearer '' h) = Some admin"
    and "select_role e d admin = Some ''ADMIN''"
    and "request_id \<noteq> []"
    and "\<not> unavailable e RequestSelect"
    and "filter (\<lambda>r. ar_id r = request_id) (access_requests d) = [r]"
    and "status r = PENDING"
    and "\<not> unavailable e RequestUpdate"
    and "\<not> unavailable e AllowedIpInsert"
    and "uuid_generate_v4 e \<notin> set (map ip_id (allowed_ips d))"
    and "distinct (map ip_address (allowed_ips d))"
    and "signInWithPassword e' email password = Some authData"
    and "user_id authData = profile_id r"
    and "\<not> unavailable e' ProfileSelect"
    and "filter (\<lambda>p. p_id p = profile_id r) (profiles d) = [p]"
    and "role p = ''CS'' \<or> role p = ''ADMIN''"
    and "\<not> unavailable e' AllowedIpSelect"
  shows "fst (resolve_access_request e d (Some h) (Some (request_id, ''APPROVE'')))
           = resolved_response ''APPROVE''
       \<and> ar_ip_address r
            \<in> set (map ip_address (allowed_ips
                 (fst (snd (resolve_access_request e d (Some h) (Some (request_id, ''APPROVE'')))))))
       \<and> attempt_login e'
            (fst (snd (resolve_access_request e d (Some h) (Some (request_id, ''APPROVE'')))))
            email password (ar_ip_address r)
           = (granted_response authData (role p, full_name p),
              fst (snd (resolve_access_request e d (Some h) (Some (request_id, ''APPROVE'')))))
       \<and> status_code (fst (resolve_access_request e d (Some h) (Some (request_id, ''APPROVE''))))
           = 200
       \<and> body_field (fst (resolve_access_request e d (Some h) (Some (request_id, ''APPROVE''))))
            ''success'' = Some (JBool True)
       \<and> body_field (fst (resolve_access_request e d (Some h) (Some (request_id, ''APPROVE''))))
            ''action'' = Some (JStr ''APPROVE'')
       \<and> status_code (fst (attempt_login e'
                 (fst (snd (resolve_access_request e d (Some h) (Some (request_id, ''APPROVE'')))))
                 email password (ar_ip_address r))) = 200
       \<and> body (fst (attempt_login e'
                 (fst (snd (resolve_access_request e d (Some h) (Some (request_id, ''APPROVE'')))))
                 email password (ar_ip_address r)))
           = [(''success'', JBool True),
              (''user'', user authData),
              (''profile'', JObj [(''role'', JStr (role p)), (''full_name'', JStr (full_name p))]),
              (''session'', session authData)]
       \<and> body_field (fst (attempt_login e'
                 (fst (snd (resolve_access_request e d (Some h) (Some (request_id, ''APPROVE'')))))
                 email password (ar_ip_address r))) ''success'' = Some (JBool True)
       \<and> body_field (fst (attempt_login e'
                 (fst (snd (resolve_access_request e d (Some h) (Some (request_id, ''APPROVE'')))))
                 email password (ar_ip_address r))) ''user'' = Some (user authData)
       \<and> body_field (fst (attempt_login e'
                 (fst (snd (resolve_access_request e d (Some h) (Some (request_id, ''APPROVE'')))))
                 email password (ar_ip_address r))) ''profile''
           = Some (JObj [(''role'', JStr (role p)), (''full_name'', JStr (full_name p))])
       \<and> body_field (fst (attempt_login e'
                 (fst (snd (resolve_access_request e d (Some h) (Some (request_id, ''APPROVE'')))))
                 email password (ar_ip_address r))) ''session'' = Some (session authData)
       \<and> body_field (fst (attempt_login e'
                 (fst (snd (resolve_access_request e d (Some h) (Some (request_id, ''APPROVE'')))))
                 email password (ar_ip_address r))) ''status'' = None"
proof -
  let ?res = "resolve_access_request e d (Some h) (Some (request_id, ''APPROVE''))"
  let ?d' = "fst (snd ?res)"
  let ?ip = "ar_ip_address r"
  have resp: "fst ?res = resolved_response ''APPROVE''"
    using assms(1-8)
    by (auto simp add: resolve_access_request_def select_request_def update_request_def
        split: option.splits)
  have prof: "profiles ?d' = profiles d"
    using assms(1-8)
    by (auto simp add: resolve_access_request_def select_request_def update_request_def
        insert_allowed_ip_def split: option.splits)
  have listed: "filter (\<lambda>a. ip_address a = ?ip) (allowed_ips ?d') \<noteq> []
              \<and> distinct (map ip_address (allowed_ips ?d'))"
    using assms(1-11)
    by (auto simp add: resolve_access_request_def select_request_def update_request_def
        insert_allowed_ip_def filter_empty_conv split: option.splits)
  have one: "\<exists>a. filter (\<lambda>a. ip_address a = ?ip) (allowed_ips ?d') = [a]"
    using listed filter_key_distinct [of ip_address "allowed_ips ?d'" ?ip]
    by (auto split: option.splits)
  have mem: "?ip \<in> set (map ip_address (allowed_ips ?d'))"
    using listed by (force simp: filter_empty_conv)
  from one obtain a where a: "filter (\<lambda>a. ip_address a = ?ip) (allowed_ips ?d') = [a]" ..
  have login: "attempt_login e' ?d' email password ?ip
                 = (granted_response authData (role p, full_name p), ?d')"
    using assms(12-17) prof a
    by (auto simp add: attempt_login_def select_profile_def select_allowed_ip_def)
  show ?thesis
    unfolding login resp using mem
    by (simp add: granted_response_def resolved_response_def json_response_def body_field_def)
qed

theorem approve_then_login_granted_witness:
  "attempt_login (demo_env ''r2'')
     (fst (snd (resolve_access_request (demo_env ''a1'') (demo_db_with PENDING)
                  (Some ''Bearer t-admin'') (Some (''r1'', ''APPROVE'')))))
     ''cs@fmf.com'' ''password123'' ''10.0.0.5''
   = (granted_response demo_cs_auth (''CS'', ''Customer Service''),
      fst (snd (resolve_access_request (demo_env ''a1'') (demo_db_with PENDING)
                  (Some ''Bearer t-admin'') (Some (''r1'', ''APPROVE'')))))
   \<and> body (fst (attempt_login (demo_env ''r2'')
     (fst (snd (resolve_access_request (demo_env ''a1'') (demo_db_with PENDING)
                  (Some ''Bearer t-admin'') (Some (''r1'', ''APPROVE'')))))
     ''cs@fmf.com'' ''password123'' ''10.0.0.5''))
       = [(''success'', JBool True),
          (''user'', JObj [(''id'', JStr ''u-cs'')]),
          (''profile'', JObj [(''role'', JStr ''CS''), (''full_name'', JStr ''Customer Service'')]),
          (''session'', JStr ''s-cs'')]"
  using approve_then_login_granted
    [of "''Bearer t-admin''" "demo_env ''a1''" "''u-admin''" "demo_db_with PENDING" "''r1''"
        "demo_request PENDING" "demo_env ''r2''" "''cs@fmf.com''" "''password123''" demo_cs_auth
        "\<lparr>p_id = ''u-cs'', full_name = ''Customer Service'', role = ''CS'', is_active = True\<rparr>"]
  by (auto simp add: demo_simps select_role_def)

end
